theory Spec2Isabelle
  imports Main
begin

section \<open>The course scraper \<^verbatim>\<open>script/data_scraper.py\<close>\<close>

text \<open>
  The script asks a web service for the prerequisites of each course code
  \<^verbatim>\<open>0000\<close> .. \<^verbatim>\<open>9999\<close>, stores every non-empty JSON answer in a file of its own and
  counts the codes that had an answer and those that had none. The development
  below embeds its three functions \<^verbatim>\<open>fetch_course_data\<close>, \<^verbatim>\<open>process_code\<close> and
  \<^verbatim>\<open>main\<close>. The remote service is a function from requests to outcomes and the
  JSON decoder of the HTTP library is a function of the encoding and the bytes
  of a response; the two module-level counters, the directories, the files and
  the console are fields of an explicit state; a Python exception is the left
  injection of a sum.
\<close>

subsection \<open>Values of the Python runtime\<close>

text \<open>
  A \<^verbatim>\<open>str\<close> is a sequence of code points; \<^const>\<open>of_char\<close> turns an ASCII literal into
  one. A \<^verbatim>\<open>bytes\<close> value is a sequence of numbers below 256.
\<close>

type_synonym pystr = "nat list"

type_synonym bytes = "nat list"

definition str :: "string \<Rightarrow> pystr" where
  "str s = map of_char s"

text \<open>
  What \<^verbatim>\<open>response.json()\<close> can return: \<^verbatim>\<open>None\<close>, a \<^verbatim>\<open>bool\<close>, an \<^verbatim>\<open>int\<close>, a
  \<^verbatim>\<open>float\<close>, a \<^verbatim>\<open>str\<close>, a \<^verbatim>\<open>list\<close> or a \<^verbatim>\<open>dict\<close> with string keys (its items in
  insertion order). A \<^verbatim>\<open>float\<close> is named by the text that the JSON encoder prints
  for it: its \<^verbatim>\<open>repr\<close>, or one of \<^verbatim>\<open>NaN\<close>, \<^verbatim>\<open>Infinity\<close> and \<^verbatim>\<open>-Infinity\<close>.
\<close>

datatype json =
    JNull
  | JBool bool
  | JInt int
  | JFloat string
  | JStr pystr
  | JArr "json list"
  | JObj "(pystr \<times> json) list"

text \<open>The exceptions that occur in the script's control flow.\<close>

datatype exn =
    ConnectionError
  | Timeout
  | JSONDecodeError
  | ValueError
  | RecursionError
  | TypeError
  | UnicodeEncodeError
  | FileNotFoundError
  | NotADirectoryError
  | IsADirectoryError
  | FileExistsError

text \<open>
  \<^verbatim>\<open>requests.ConnectionError\<close> and \<^verbatim>\<open>requests.Timeout\<close> are subclasses of
  \<^verbatim>\<open>requests.RequestException\<close>; none of the other exceptions is.
\<close>

fun is_RequestException :: "exn \<Rightarrow> bool" where
  "is_RequestException ConnectionError = True"
| "is_RequestException Timeout = True"
| "is_RequestException e = False"

text \<open>
  The built-in \<^verbatim>\<open>len\<close>: the number of keys of a \<^verbatim>\<open>dict\<close>, of items of a \<^verbatim>\<open>list\<close>,
  of code points of a \<^verbatim>\<open>str\<close>; on \<^verbatim>\<open>None\<close>, a \<^verbatim>\<open>bool\<close>, an \<^verbatim>\<open>int\<close> or a \<^verbatim>\<open>float\<close>
  it raises \<^verbatim>\<open>TypeError\<close>.
\<close>

fun len :: "json \<Rightarrow> exn + nat" where
  "len (JObj kvs) = Inr (length (remdups (map fst kvs)))"
| "len (JArr xs) = Inr (length xs)"
| "len (JStr s) = Inr (length s)"
| "len JNull = Inl TypeError"
| "len (JBool b) = Inl TypeError"
| "len (JInt i) = Inl TypeError"
| "len (JFloat x) = Inl TypeError"

subsection \<open>Rendering a code: \<^verbatim>\<open>f"{code_num:04d}"\<close>\<close>

definition digit_char :: "nat \<Rightarrow> char" where
  "digit_char d = char_of (48 + d)"

text \<open>\<^verbatim>\<open>str\<close> of a non-negative integer: its decimal digits, most significant first.\<close>

fun str_nat :: "nat \<Rightarrow> string" where
  "str_nat n = (if n < 10 then [digit_char n] else str_nat (n div 10) @ [digit_char (n mod 10)])"

declare str_nat.simps [simp del]

text \<open>
  The format specification \<^verbatim>\<open>04d\<close>: decimal, minimum width 4, padded with zeros
  between the sign and the digits. A number with more digits is not truncated.
\<close>

definition format_04d :: "int \<Rightarrow> string" where
  "format_04d n =
     (let sign = (if n < 0 then ''-'' else '''');
          ds = str_nat (nat \<bar>n\<bar>)
      in sign @ replicate (4 - length sign - length ds) (CHR ''0'') @ ds)"

subsection \<open>The remote service and the HTTP library\<close>

record request =
  url :: string
  headers :: "(string \<times> string) list"
  timeout :: nat

text \<open>
  The attributes of a \<^verbatim>\<open>requests.Response\<close>: the status, the headers, the encoding
  that the library takes from the \<^verbatim>\<open>Content-Type\<close> header (\<^verbatim>\<open>None\<close> if there is
  none to take) and the bytes of the body.
\<close>

record response =
  status_code :: int
  response_headers :: "(string \<times> string) list"
  encoding :: "string option"
  content :: string

text \<open>
  \<^verbatim>\<open>response.json()\<close> decodes the bytes of the body to text under the encoding of
  the response and parses the text. It returns the value, raises
  \<^verbatim>\<open>JSONDecodeError\<close> on text that is not JSON, and raises other exceptions on
  some JSON texts (\<^verbatim>\<open>ValueError\<close> on an integer of too many digits,
  \<^verbatim>\<open>RecursionError\<close> on too deep a nesting). The library is not part of the
  script: its decoder is a parameter, a function of the encoding and the body.
\<close>

type_synonym decoder = "string option \<Rightarrow> string \<Rightarrow> exn + json"

definition response_json :: "decoder \<Rightarrow> response \<Rightarrow> exn + json" where
  "response_json dec r = dec (encoding r) (content r)"

text \<open>
  \<^verbatim>\<open>requests.get\<close> either raises or returns a response; which one is up to the
  network and the remote service.
\<close>

type_synonym network = "request \<Rightarrow> exn + response"

subsection \<open>The JSON encoder: \<^verbatim>\<open>json.dump(data, f, ensure_ascii=False, indent=2)\<close>\<close>

text \<open>\<^verbatim>\<open>str\<close> of an integer.\<close>

definition str_int :: "int \<Rightarrow> string" where
  "str_int i = (if i < 0 then ''-'' else '''') @ str_nat (nat \<bar>i\<bar>)"

definition hex_digit :: "nat \<Rightarrow> nat" where
  "hex_digit d = (if d < 10 then 48 + d else 87 + d)"

text \<open>
  With \<^verbatim>\<open>ensure_ascii=False\<close> the encoder escapes the quotation mark, the
  backslash and the control characters below \<^verbatim>\<open>0x20\<close>, and nothing else: every
  other code point, ASCII or not, goes into the text as it is.
\<close>

definition escape_char :: "nat \<Rightarrow> pystr" where
  "escape_char c =
     (if c = 34 then [92, 34]
      else if c = 92 then [92, 92]
      else if c = 10 then [92, 110]
      else if c = 13 then [92, 114]
      else if c = 9 then [92, 116]
      else if c = 8 then [92, 98]
      else if c = 12 then [92, 102]
      else if c < 32 then [92, 117, 48, 48, hex_digit (c div 16), hex_digit (c mod 16)]
      else [c])"

definition encode_basestring :: "pystr \<Rightarrow> pystr" where
  "encode_basestring s = [34] @ concat (map escape_char s) @ [34]"

text \<open>A line feed and \<open>ind\<close> spaces for each level of nesting.\<close>

definition newline_indent :: "nat \<Rightarrow> nat \<Rightarrow> pystr" where
  "newline_indent ind level = 10 # replicate (ind * level) 32"

fun intercalate :: "'a list \<Rightarrow> 'a list list \<Rightarrow> 'a list" where
  "intercalate sep [] = []"
| "intercalate sep [x] = x"
| "intercalate sep (x # y # ys) = x @ sep @ intercalate sep (y # ys)"

text \<open>
  The text for a value at a level of nesting. With an indentation the items of
  a list or a dictionary are separated by a comma and each put on a line of its
  own; a key is separated from its value by a colon and a space; an empty list
  or dictionary is a pair of brackets.
\<close>

fun iterencode :: "nat \<Rightarrow> nat \<Rightarrow> json \<Rightarrow> pystr" where
  "iterencode ind level JNull = str ''null''"
| "iterencode ind level (JBool b) = (if b then str ''true'' else str ''false'')"
| "iterencode ind level (JInt i) = str (str_int i)"
| "iterencode ind level (JFloat r) = str r"
| "iterencode ind level (JStr s) = encode_basestring s"
| "iterencode ind level (JArr xs) =
     (if xs = [] then str ''[]''
      else str ''['' @ newline_indent ind (Suc level)
           @ intercalate (str '','' @ newline_indent ind (Suc level))
               (map (iterencode ind (Suc level)) xs)
           @ newline_indent ind level @ str '']'')"
| "iterencode ind level (JObj kvs) =
     (if kvs = [] then str ''{}''
      else str ''{'' @ newline_indent ind (Suc level)
           @ intercalate (str '','' @ newline_indent ind (Suc level))
               (map (\<lambda>(k, v). encode_basestring k @ str '': '' @ iterencode ind (Suc level) v) kvs)
           @ newline_indent ind level @ str ''}'')"

subsection \<open>Text files in UTF-8\<close>

text \<open>
  A code point of the surrogate range has no UTF-8 encoding: writing it to a file
  opened with \<^verbatim>\<open>encoding='utf-8'\<close> raises \<^verbatim>\<open>UnicodeEncodeError\<close>. Every other
  code point is written as its one to four bytes, a line feed as the one byte
  that it is (as on POSIX systems).
\<close>

definition is_surrogate :: "nat \<Rightarrow> bool" where
  "is_surrogate c = (55296 \<le> c \<and> c \<le> 57343)"

definition utf8_char :: "nat \<Rightarrow> bytes" where
  "utf8_char c =
     (if c < 128 then [c]
      else if c < 2048 then [192 + c div 64, 128 + c mod 64]
      else if c < 65536 then [224 + c div 4096, 128 + c div 64 mod 64, 128 + c mod 64]
      else [240 + c div 262144, 128 + c div 4096 mod 64, 128 + c div 64 mod 64, 128 + c mod 64])"

definition utf8_encode :: "pystr \<Rightarrow> exn + bytes" where
  "utf8_encode text =
     (if list_ex is_surrogate text then Inl UnicodeEncodeError
      else Inr (concat (map utf8_char text)))"

subsection \<open>The state of a run\<close>

text \<open>
  A file holds the bytes written to it, or, after a write that ended in an
  exception, some initial part of them.
\<close>

datatype contents = Bytes bytes | Incomplete

text \<open>The lines the script prints.\<close>

datatype line =
    Starting
  | OutputDirectory string
  | UsingThreads nat
  | Rule
  | Saved string string
  | Progress string int int
  | ErrorProcessing exn
  | Completed
  | Successful int
  | Failed int
  | TotalProcessed int

text \<open>
  The two counters, the file system and the console. Directories and files are
  known by the path strings under which the script creates and opens them; the
  file system of the model has no permissions, links or quotas, and the working
  directory, the empty path, always exists. The console takes every line that is
  printed to it.
\<close>

record state =
  successful :: int
  failed :: int
  dirs :: "string set"
  files :: "string \<rightharpoonup> contents"
  stdout :: "line list"

subsection \<open>\<^verbatim>\<open>fetch_course_data\<close>\<close>

definition request_headers :: "string \<Rightarrow> (string \<times> string) list" where
  "request_headers code =
     [(''Accept'', ''application/json''),
      (''Accept-Language'', ''en-US,en;q=0.5''),
      (''Accept-Encoding'', ''gzip, deflate, br, zstd''),
      (''X-Requested-With'', ''XMLHttpRequest''),
      (''Sec-GPC'', ''1''),
      (''Connection'', ''keep-alive''),
      (''Referer'', ''https://graduacao.ufms.br/cursos/'' @ code @ ''/matriz''),
      (''Sec-Fetch-Dest'', ''empty''),
      (''Sec-Fetch-Mode'', ''cors''),
      (''Sec-Fetch-Site'', ''same-origin''),
      (''Pragma'', ''no-cache''),
      (''Cache-Control'', ''no-cache'')]"

definition course_request :: "string \<Rightarrow> request" where
  "course_request code =
     \<lparr>url = ''https://graduacao.ufms.br/portal/matriz/get-pre-requisitos/'' @ code,
      headers = request_headers code,
      timeout = 10\<rparr>"

text \<open>The body of the \<^verbatim>\<open>try\<close> block: the first exception ends it.\<close>

definition fetch_try :: "decoder \<Rightarrow> network \<Rightarrow> string \<Rightarrow> exn + json option" where
  "fetch_try dec net code =
     (case net (course_request code) of
        Inl e \<Rightarrow> Inl e
      | Inr response \<Rightarrow>
          if status_code response = 200 then
            (case response_json dec response of
               Inl e \<Rightarrow> Inl e
             | Inr data \<Rightarrow>
                 (case len data of
                    Inl e \<Rightarrow> Inl e
                  | Inr n \<Rightarrow> if n = 0 then Inr None else Inr (Some data)))
          else Inr None)"

text \<open>
  \<^verbatim>\<open>except (requests.RequestException, json.JSONDecodeError)\<close>: an exception of
  one of the two classes becomes the result \<^verbatim>\<open>None\<close>, any other one leaves the
  function. No statement of the function assigns a global, opens a file or
  prints, so the state comes back as it went in.
\<close>

definition fetch_course_data ::
    "decoder \<Rightarrow> network \<Rightarrow> string \<Rightarrow> state \<Rightarrow> (exn + json option) \<times> state" where
  "fetch_course_data dec net code st =
     (case fetch_try dec net code of
        Inl e \<Rightarrow> if is_RequestException e \<or> e = JSONDecodeError then (Inr None, st) else (Inl e, st)
      | Inr result \<Rightarrow> (Inr result, st))"

subsection \<open>\<^verbatim>\<open>process_code\<close>\<close>

text \<open>
  \<^verbatim>\<open>os.path.join\<close> (POSIX) of two components, the second one not starting with a
  slash: a separator is put between them unless the first is empty or ends in one.
\<close>

definition os_path_join :: "string \<Rightarrow> string \<Rightarrow> string" where
  "os_path_join a b = (if a = [] \<or> last a = CHR ''/'' then a @ b else a @ ''/'' @ b)"

text \<open>
  The directory of a path (\<^verbatim>\<open>os.path.dirname\<close>): what stands before the last
  slash, without its trailing slashes unless it consists of slashes only.
\<close>

definition dirname :: "string \<Rightarrow> string" where
  "dirname p =
     (let head = rev (dropWhile (\<lambda>c. c \<noteq> CHR ''/'') (rev p))
      in if list_all (\<lambda>c. c = CHR ''/'') head then head
         else rev (dropWhile (\<lambda>c. c = CHR ''/'') (rev head)))"

text \<open>
  \<^verbatim>\<open>open(filename, 'w', encoding='utf-8')\<close> creates the file or empties it. It
  raises if the path is a directory, or if the directory of the path is a file
  or does not exist.
\<close>

definition open_w :: "string \<Rightarrow> state \<Rightarrow> exn + state" where
  "open_w filename st =
     (if filename \<in> dirs st then Inl IsADirectoryError
      else if dirname filename \<in> dom (files st) then Inl NotADirectoryError
      else if dirname filename \<noteq> [] \<and> dirname filename \<notin> dirs st then Inl FileNotFoundError
      else Inr (st\<lparr>files := (files st)(filename \<mapsto> Bytes [])\<rparr>))"

text \<open>
  \<^verbatim>\<open>json.dump(data, f, ensure_ascii=False, indent=ind)\<close> into the text file opened
  under \<open>filename\<close>: the text of the value goes to the file in UTF-8. If the text
  has a code point without an encoding, the call raises and the file is left
  with what was written before.
\<close>

definition json_dump :: "json \<Rightarrow> string \<Rightarrow> nat \<Rightarrow> state \<Rightarrow> (exn + unit) \<times> state" where
  "json_dump data filename ind st =
     (case utf8_encode (iterencode ind 0 data) of
        Inl e \<Rightarrow> (Inl e, st\<lparr>files := (files st)(filename \<mapsto> Incomplete)\<rparr>)
      | Inr bs \<Rightarrow> (Inr (), st\<lparr>files := (files st)(filename \<mapsto> Bytes bs)\<rparr>))"

definition process_code ::
    "decoder \<Rightarrow> network \<Rightarrow> int \<Rightarrow> string \<Rightarrow> state \<Rightarrow> (exn + string \<times> bool) \<times> state" where
  "process_code dec net code_num output_dir st =
     (let code = format_04d code_num in
      case fetch_course_data dec net code st of
        (Inl e, st1) \<Rightarrow> (Inl e, st1)
      | (Inr (Some data), st1) \<Rightarrow>
          (let filename = os_path_join output_dir (code @ ''.json'') in
           case open_w filename st1 of
             Inl e \<Rightarrow> (Inl e, st1)
           | Inr st2 \<Rightarrow>
               (case json_dump data filename 2 st2 of
                  (Inl e, st3) \<Rightarrow> (Inl e, st3)
                | (Inr u, st3) \<Rightarrow>
                    (let st4 = st3\<lparr>successful := successful st3 + 1\<rparr>;
                         st5 = st4\<lparr>stdout := stdout st4 @ [Saved code filename]\<rparr>
                     in (Inr (code, True), st5))))
      | (Inr None, st1) \<Rightarrow>
          (let st2 = st1\<lparr>failed := failed st1 + 1\<rparr>;
               st3 = (if code_num mod 100 = 0
                      then st2\<lparr>stdout := stdout st2 @ [Progress code (successful st2) (failed st2)]\<rparr>
                      else st2)
           in (Inr (code, False), st3)))"

subsection \<open>\<^verbatim>\<open>main\<close>\<close>

text \<open>
  \<^verbatim>\<open>os.makedirs(path, exist_ok=True)\<close> for a path of one component: the directory
  is there afterwards, unless the path is a file.
\<close>

definition makedirs :: "string \<Rightarrow> state \<Rightarrow> exn + state" where
  "makedirs path st =
     (if path \<in> dom (files st) then Inl FileExistsError
      else Inr (st\<lparr>dirs := insert path (dirs st)\<rparr>))"

text \<open>\<^verbatim>\<open>range(10000)\<close>: the codes that \<^verbatim>\<open>main\<close> submits to the pool.\<close>

definition submitted_codes :: "int list" where
  "submitted_codes = map int [0..<10000]"

text \<open>
  One task, and what \<^verbatim>\<open>main\<close> does with its future: an exception of the task is
  caught and printed, a result is dropped. The line for the exception is put
  where the task ends; \<^verbatim>\<open>main\<close> prints it when it collects the future.
\<close>

definition run_task :: "decoder \<Rightarrow> network \<Rightarrow> string \<Rightarrow> state \<Rightarrow> int \<Rightarrow> state" where
  "run_task dec net output_dir st code_num =
     (case process_code dec net code_num output_dir st of
        (Inl e, st1) \<Rightarrow> st1\<lparr>stdout := stdout st1 @ [ErrorProcessing e]\<rparr>
      | (Inr r, st1) \<Rightarrow> st1)"

text \<open>
  The workers of the pool take the submitted tasks in some order, and the two
  locks make the file write and the counter section of a task indivisible. A run
  is modelled by the tasks executing one after the other in the order \<open>sched\<close>, a
  rearrangement of \<^const>\<open>submitted_codes\<close> that the scheduler picks; \<open>num_threads\<close>
  is the result of \<^verbatim>\<open>multiprocessing.cpu_count()\<close>, and a pool of no workers is
  refused with \<^verbatim>\<open>ValueError\<close>. An exception that \<^verbatim>\<open>main\<close> does not catch ends the
  program.
\<close>

definition main :: "decoder \<Rightarrow> network \<Rightarrow> nat \<Rightarrow> int list \<Rightarrow> state \<Rightarrow> exn + state" where
  "main dec net num_threads sched st0 =
     (let output_dir = ''json'' in
      case makedirs output_dir st0 of
        Inl e \<Rightarrow> Inl e
      | Inr st1 \<Rightarrow>
          (let st2 = st1\<lparr>stdout := stdout st1 @
                       [Starting, OutputDirectory output_dir, UsingThreads num_threads, Rule]\<rparr>;
               st3 = st2\<lparr>successful := 0, failed := 0\<rparr>
           in if num_threads = 0 then Inl ValueError
              else (let st4 = foldl (run_task dec net output_dir) st3 sched
                    in Inr (st4\<lparr>stdout := stdout st4 @
                         [Rule, Completed, Successful (successful st4), Failed (failed st4),
                          TotalProcessed (successful st4 + failed st4)]\<rparr>))))"

text \<open>The module-level state before \<^verbatim>\<open>main\<close> runs: both counters are zero.\<close>

definition initial_state :: state where
  "initial_state = \<lparr>successful = 0, failed = 0, dirs = {}, files = Map.empty, stdout = []\<rparr>"

subsection \<open>Some responses and what the library decodes them to\<close>

text \<open>The bodies \<^verbatim>\<open>{"a":1}\<close> and \<^verbatim>\<open>["\ud800"]\<close>, the latter with the escape as six ASCII characters.\<close>

definition body_object :: string where
  "body_object = ''{'' @ [CHR 0x22] @ ''a'' @ [CHR 0x22] @ '':1}''"

definition body_surrogate :: string where
  "body_surrogate = ''['' @ [CHR 0x22, CHR 0x5C] @ ''ud800'' @ [CHR 0x22] @ '']''"

text \<open>
  What \<^verbatim>\<open>response.json()\<close> of \<^verbatim>\<open>requests\<close> gives on five bodies read as UTF-8. The
  table is for examples: to every other response it assigns \<^verbatim>\<open>JSONDecodeError\<close>,
  which is what the library does with the three bytes \<^verbatim>\<open>[1]\<close> read as UTF-16,
  not what it does in general.
\<close>

definition sample_decoder :: decoder where
  "sample_decoder enc body =
     (if enc = Some ''utf-8'' \<and> body = ''null'' then Inr JNull
      else if enc = Some ''utf-8'' \<and> body = ''5'' then Inr (JInt 5)
      else if enc = Some ''utf-8'' \<and> body = ''[1]'' then Inr (JArr [JInt 1])
      else if enc = Some ''utf-8'' \<and> body = body_object then Inr (JObj [(str ''a'', JInt 1)])
      else if enc = Some ''utf-8'' \<and> body = body_surrogate then Inr (JArr [JStr [55296]])
      else Inl JSONDecodeError)"

definition ok_response :: "string \<Rightarrow> string \<Rightarrow> response" where
  "ok_response enc body =
     \<lparr>status_code = 200,
      response_headers = [(''Content-Type'', ''application/json; charset='' @ enc)],
      encoding = Some enc,
      content = body\<rparr>"

subsection \<open>Decimal parsing, as the specification words it\<close>

text \<open>
  The specification speaks of reading a rendered code back "via decimal parsing".
  The script itself never parses a code; the reader below is the one the
  round-trip property is stated against: an optional minus sign, then decimal
  digits, most significant first.
\<close>

definition digit_value :: "char \<Rightarrow> nat option" where
  "digit_value c =
     (let k = (of_char c :: nat) in if 48 \<le> k \<and> k \<le> 57 then Some (k - 48) else None)"

fun parse_digits :: "nat \<Rightarrow> string \<Rightarrow> nat option" where
  "parse_digits acc [] = Some acc"
| "parse_digits acc (c # cs) =
     (case digit_value c of None \<Rightarrow> None | Some d \<Rightarrow> parse_digits (10 * acc + d) cs)"

definition parse_decimal :: "string \<Rightarrow> int option" where
  "parse_decimal s =
     (case s of
        [] \<Rightarrow> None
      | c # cs \<Rightarrow>
          if c = CHR ''-''
          then (if cs = [] then None else map_option (\<lambda>k. - int k) (parse_digits 0 cs))
          else map_option int (parse_digits 0 s))"

section \<open>Properties of \<^verbatim>\<open>fetch_course_data\<close>\<close>

text \<open>The \<^verbatim>\<open>try\<close> block, read off by the cases of the response.\<close>

lemma fetch_try_cases:
  "fetch_try dec net code =
     (case net (course_request code) of
        Inl e \<Rightarrow> Inl e
      | Inr r \<Rightarrow>
          if status_code r \<noteq> 200 then Inr None
          else (case dec (encoding r) (content r) of
                  Inl e \<Rightarrow> Inl e
                | Inr v \<Rightarrow>
                    (case len v of
                       Inl e \<Rightarrow> Inl e
                     | Inr n \<Rightarrow> if n = 0 then Inr None else Inr (Some v))))"
  by (simp add: fetch_try_def response_json_def split: sum.splits)

lemma len_TypeError: "len v = Inl e \<Longrightarrow> e = TypeError"
  by (cases v) auto

lemma fetch_course_data_state: "snd (fetch_course_data dec net code st) = st"
  by (simp add: fetch_course_data_def split: sum.splits)

text \<open>The result of the fetch does not depend on the state of the run.\<close>

lemma fetch_course_data_fst:
  "fst (fetch_course_data dec net code st) =
     (case fetch_try dec net code of
        Inl e \<Rightarrow> if is_RequestException e \<or> e = JSONDecodeError then Inr None else Inl e
      | Inr result \<Rightarrow> Inr result)"
  by (simp add: fetch_course_data_def split: sum.splits)

lemma fetch_course_data_eq:
  "fetch_course_data dec net code st = (fst (fetch_course_data dec net code st), st)"
  by (simp add: fetch_course_data_def split: sum.splits)

text \<open>
  When the function returns \<^verbatim>\<open>None\<close>: the request raised one of the caught
  exceptions, the status is not 200, the decoder raised \<^verbatim>\<open>JSONDecodeError\<close>, or
  the value has length zero.
\<close>

lemma fetch_None_iff:
  "fst (fetch_course_data dec net code st) = Inr None \<longleftrightarrow>
     (\<exists>e. net (course_request code) = Inl e \<and> (is_RequestException e \<or> e = JSONDecodeError))
   \<or> (\<exists>r. net (course_request code) = Inr r \<and>
          (status_code r \<noteq> 200
           \<or> (\<exists>e. dec (encoding r) (content r) = Inl e
                  \<and> (is_RequestException e \<or> e = JSONDecodeError))
           \<or> (\<exists>v. dec (encoding r) (content r) = Inr v \<and> len v = Inr 0)))"
  by (auto simp: fetch_course_data_fst fetch_try_cases
      split: sum.splits if_splits dest: len_TypeError)

text \<open>When it returns a value: status 200 and a body whose value has elements.\<close>

lemma fetch_Some_iff:
  "fst (fetch_course_data dec net code st) = Inr (Some v) \<longleftrightarrow>
     (\<exists>r n. net (course_request code) = Inr r \<and> status_code r = 200 \<and>
            dec (encoding r) (content r) = Inr v \<and> len v = Inr n \<and> 0 < n)"
  by (auto simp: fetch_course_data_fst fetch_try_cases
      split: sum.splits if_splits dest: len_TypeError)

text \<open>
  When it raises: the request or the decoder raised an exception that the
  handler does not name, or the status is 200 and \<^verbatim>\<open>len\<close> raises on the decoded
  value.
\<close>

lemma fetch_raise_iff:
  "fst (fetch_course_data dec net code st) = Inl e \<longleftrightarrow>
     \<not> is_RequestException e \<and> e \<noteq> JSONDecodeError \<and>
     (net (course_request code) = Inl e
      \<or> (\<exists>r. net (course_request code) = Inr r \<and> status_code r = 200 \<and>
             (dec (encoding r) (content r) = Inl e
              \<or> (\<exists>v. dec (encoding r) (content r) = Inr v \<and> len v = Inl e))))"
  by (auto simp: fetch_course_data_fst fetch_try_cases
      split: sum.splits if_splits dest: len_TypeError)

text \<open>A value without a length makes the call raise, whatever the decoder is.\<close>

lemma fetch_course_data_scalar:
  assumes "net (course_request code) = Inr r"
    and "status_code r = 200"
    and "dec (encoding r) (content r) = Inr v"
    and "v = JNull \<or> (\<exists>b. v = JBool b) \<or> (\<exists>i. v = JInt i) \<or> (\<exists>x. v = JFloat x)"
  shows "fetch_course_data dec net code st = (Inl TypeError, st)"
  using assms by (auto simp: fetch_course_data_def fetch_try_cases)

text \<open>
  Claim C2. The claim: \<^verbatim>\<open>fetch_course_data\<close> returns \<^verbatim>\<open>None\<close> exactly when the
  transport fails, the status is not 200, the body is not JSON or the decoded
  value is empty, and otherwise returns the decoded value. The code at a response
  with status 200 and the body \<^verbatim>\<open>null\<close>: the call does neither, it raises
  \<^verbatim>\<open>TypeError\<close>, because \<^verbatim>\<open>len(None)\<close> raises inside the \<^verbatim>\<open>try\<close> block and the
  handler names other classes only.
\<close>

theorem fetch_course_data_null_body:
  "fst (fetch_course_data sample_decoder (\<lambda>req. Inr (ok_response ''utf-8'' ''null'')) ''0042'' st)
     = Inl TypeError"
  by (simp add: fetch_course_data_def fetch_try_cases ok_response_def sample_decoder_def)

text \<open>
  Claim C3. The claim: for every response, of whatever JSON type its body is,
  \<^verbatim>\<open>fetch_course_data\<close> returns a value and lets no exception out. The code at a
  response with status 200 and the body \<^verbatim>\<open>5\<close>: \<^verbatim>\<open>TypeError\<close> leaves the function.
\<close>

theorem fetch_course_data_number_body_raises:
  "fetch_course_data sample_decoder (\<lambda>req. Inr (ok_response ''utf-8'' ''5'')) ''0000'' st
     = (Inl TypeError, st)"
  by (simp add: fetch_course_data_def fetch_try_cases ok_response_def sample_decoder_def)

text \<open>
  Claim C9. \<^verbatim>\<open>fetch_course_data\<close> has no effect on the state of the run: the
  counters, the files, the directories and the console are after the call what
  they were before it, whatever the network answers; and its result does not
  depend on that state.
\<close>

theorem fetch_course_data_no_side_effects:
  "snd (fetch_course_data dec net code st) = st
   \<and> successful (snd (fetch_course_data dec net code st)) = successful st
   \<and> failed (snd (fetch_course_data dec net code st)) = failed st
   \<and> files (snd (fetch_course_data dec net code st)) = files st
   \<and> fst (fetch_course_data dec net code st) = fst (fetch_course_data dec net code st')"
  by (simp add: fetch_course_data_def split: sum.splits)




section \<open>Rendering and reading back a code\<close>

lemma of_char_digit_char: "d < 10 \<Longrightarrow> (of_char (digit_char d) :: nat) = 48 + d"
  by (simp add: digit_char_def)

lemma digit_value_digit_char: "d < 10 \<Longrightarrow> digit_value (digit_char d) = Some d"
  by (simp add: digit_value_def of_char_digit_char)

lemma digit_char_not_minus:
  assumes "d < 10"
  shows "digit_char d \<noteq> CHR ''-''"
proof
  assume "digit_char d = CHR ''-''"
  then have "(of_char (digit_char d) :: nat) = of_char (CHR ''-'')" by simp
  then show False using assms by (simp add: of_char_digit_char)
qed

lemma digit_char_0: "digit_char 0 = CHR ''0''"
  by code_simp

text \<open>The digits of a number below ten thousand, by the number of its digits.\<close>

lemma str_nat_1: "n < 10 \<Longrightarrow> str_nat n = [digit_char n]"
  by (simp add: str_nat.simps)

lemma str_nat_step: "10 \<le> n \<Longrightarrow> str_nat n = str_nat (n div 10) @ [digit_char (n mod 10)]"
  by (subst str_nat.simps) simp

lemma str_nat_2:
  assumes "10 \<le> n" "n < 100"
  shows "str_nat n = [digit_char (n div 10), digit_char (n mod 10)]"
proof -
  have "n div 10 < 10" using assms by simp
  then show ?thesis using assms by (simp add: str_nat_step str_nat_1)
qed

lemma str_nat_3:
  assumes "100 \<le> n" "n < 1000"
  shows "str_nat n = [digit_char (n div 100), digit_char (n div 10 mod 10), digit_char (n mod 10)]"
proof -
  have a: "10 \<le> n div 10" "n div 10 < 100" "10 \<le> n" using assms by simp_all
  have b: "n div 10 div 10 = n div 100" by (simp add: div_mult2_eq [symmetric])
  show ?thesis
    by (simp only: str_nat_step [OF a(3)] str_nat_2 [OF a(1) a(2)] b append.simps)
qed

lemma str_nat_4:
  assumes "1000 \<le> n" "n < 10000"
  shows "str_nat n =
     [digit_char (n div 1000), digit_char (n div 100 mod 10), digit_char (n div 10 mod 10),
      digit_char (n mod 10)]"
proof -
  have a: "100 \<le> n div 10" "n div 10 < 1000" "10 \<le> n" using assms by simp_all
  have b: "n div 10 div 100 = n div 1000" "n div 10 div 10 = n div 100"
    by (simp_all add: div_mult2_eq [symmetric])
  show ?thesis
    by (simp only: str_nat_step [OF a(3)] str_nat_3 [OF a(1) a(2)] b append.simps)
qed

lemma format_04d_nonneg:
  "0 \<le> n \<Longrightarrow>
     format_04d n = replicate (4 - length (str_nat (nat n))) (CHR ''0'') @ str_nat (nat n)"
  by (simp add: format_04d_def Let_def)

lemma replicate_3: "replicate 3 x = [x, x, x]"
  by (simp add: numeral_3_eq_3)

lemma replicate_2: "replicate 2 x = [x, x]"
  by (simp add: numeral_2_eq_2)

text \<open>Padding to width four puts a zero in every place the number leaves empty.\<close>

lemma pad_digits:
  assumes "k < 10000"
  shows "replicate (4 - length (str_nat k)) (CHR ''0'') @ str_nat k =
     [digit_char (k div 1000), digit_char (k div 100 mod 10), digit_char (k div 10 mod 10),
      digit_char (k mod 10)]"
proof -
  consider "k < 10" | "10 \<le> k" "k < 100" | "100 \<le> k" "k < 1000" | "1000 \<le> k" by linarith
  then show ?thesis
  proof cases
    case 1
    then have d: "k div 1000 = 0" "k div 100 = 0" "k div 10 = 0" "k mod 10 = k" by simp_all
    have "(4::nat) - length (str_nat k) = 3" using 1 by (simp add: str_nat_1)
    then show ?thesis using 1 by (simp add: d str_nat_1 digit_char_0 replicate_3)
  next
    case 2
    then have d: "k div 1000 = 0" "k div 100 = 0" "k div 10 mod 10 = k div 10" by simp_all
    have "(4::nat) - length (str_nat k) = 2" using 2 by (simp add: str_nat_2)
    then show ?thesis using 2 by (simp add: d str_nat_2 digit_char_0 replicate_2)
  next
    case 3
    then have d: "k div 1000 = 0" "k div 100 mod 10 = k div 100" by simp_all
    have "(4::nat) - length (str_nat k) = 1" using 3 by (simp add: str_nat_3)
    then show ?thesis using 3 by (simp add: d str_nat_3 digit_char_0)
  next
    case 4
    have "(4::nat) - length (str_nat k) = 0" using 4 assms by (simp add: str_nat_4)
    then show ?thesis using 4 assms by (simp add: str_nat_4)
  qed
qed

lemma format_04d_digits:
  assumes "0 \<le> n" "n < 10000"
  shows "format_04d n =
     [digit_char (nat n div 1000), digit_char (nat n div 100 mod 10),
      digit_char (nat n div 10 mod 10), digit_char (nat n mod 10)]"
proof -
  have "nat n < 10000" using assms by simp
  then show ?thesis by (simp only: format_04d_nonneg [OF assms(1)] pad_digits)
qed

lemma format_04d_length: "0 \<le> n \<Longrightarrow> n < 10000 \<Longrightarrow> length (format_04d n) = 4"
  by (simp add: format_04d_digits)

lemma parse_four_digits:
  assumes "a < 10" "b < 10" "c < 10" "d < 10"
  shows "parse_decimal [digit_char a, digit_char b, digit_char c, digit_char d] =
     Some (int (10 * (10 * (10 * a + b) + c) + d))"
  using assms digit_char_not_minus [OF assms(1)]
  by (simp add: parse_decimal_def digit_value_digit_char)

lemma format_04d_parse:
  assumes "0 \<le> n" "n < 10000"
  shows "parse_decimal (format_04d n) = Some n"
proof -
  define k where "k = nat n"
  have k: "k < 10000" "n = int k" using assms by (auto simp: k_def)
  have d: "k div 1000 < 10" "k div 100 mod 10 < 10" "k div 10 mod 10 < 10" "k mod 10 < 10"
    using k(1) by simp_all
  have "k div 1000 = k div 100 div 10" "k div 100 = k div 10 div 10"
    by (simp_all add: div_mult2_eq [symmetric])
  then have a: "10 * (k div 1000) + k div 100 mod 10 = k div 100"
    "10 * (k div 100) + k div 10 mod 10 = k div 10"
    "10 * (k div 10) + k mod 10 = k"
    by simp_all
  have e: "10 * (10 * (10 * (k div 1000) + k div 100 mod 10) + k div 10 mod 10) + k mod 10 = k"
    by (simp only: a)
  have "parse_decimal (format_04d n) =
     parse_decimal [digit_char (k div 1000), digit_char (k div 100 mod 10),
       digit_char (k div 10 mod 10), digit_char (k mod 10)]"
    by (simp only: format_04d_digits [OF assms] k_def)
  also have "\<dots> = Some (int k)"
    by (simp only: parse_four_digits [OF d] e)
  finally show ?thesis by (simp add: k(2))
qed

text \<open>The codes that \<^verbatim>\<open>main\<close> submits are the integers from 0 to 9999, each once.\<close>

lemma set_submitted_codes: "set submitted_codes = {c. 0 \<le> c \<and> c < 10000}"
proof -
  have "int ` {0..<10000} = {c. 0 \<le> c \<and> c < 10000}"
  proof (rule set_eqI)
    fix c :: int
    show "c \<in> int ` {0..<10000} \<longleftrightarrow> c \<in> {c. 0 \<le> c \<and> c < 10000}"
    proof
      assume "c \<in> int ` {0..<10000}"
      then show "c \<in> {c. 0 \<le> c \<and> c < 10000}" by auto
    next
      assume "c \<in> {c. 0 \<le> c \<and> c < 10000}"
      then have "c = int (nat c)" "nat c \<in> {0..<10000}" by auto
      then show "c \<in> int ` {0..<10000}" by (rule image_eqI)
    qed
  qed
  then show ?thesis by (simp only: submitted_codes_def set_map set_upt)
qed

lemma length_submitted_codes: "length submitted_codes = 10000"
  by (simp only: submitted_codes_def length_map length_upt diff_zero)

lemma digit_char_values:
  "digit_char 0 = CHR ''0''" "digit_char 1 = CHR ''1''" "digit_char 2 = CHR ''2''"
  "digit_char 3 = CHR ''3''" "digit_char 4 = CHR ''4''" "digit_char 5 = CHR ''5''"
  "digit_char 6 = CHR ''6''" "digit_char 7 = CHR ''7''" "digit_char 8 = CHR ''8''"
  "digit_char 9 = CHR ''9''"
  by code_simp+

text \<open>
  Claim C7. For every integer from 0 to 9999 the rendered code has exactly four
  characters, and reading it back as a decimal number gives the integer again.
\<close>

theorem format_04d_round_trip:
  assumes "0 \<le> n" and "n \<le> 9999"
  shows "length (format_04d n) = 4 \<and> parse_decimal (format_04d n) = Some n"
  using assms by (simp add: format_04d_length format_04d_parse)

theorem format_04d_round_trip_witness:
  "(0::int) \<le> 7 \<and> (7::int) \<le> 9999 \<and> format_04d 7 = ''0007''
   \<and> length (format_04d 7) = 4 \<and> parse_decimal (format_04d 7) = Some 7"
  using format_04d_round_trip [of 7]
  by (simp add: format_04d_digits digit_char_values)

text \<open>
  Claim C5, as stated: every code that the program enumerates lies in the
  half-open interval from 0 to 9999. It fails at the last code: \<^verbatim>\<open>range(10000)\<close>
  contains 9999.
\<close>

theorem submitted_codes_counterexample:
  "9999 \<in> set submitted_codes \<and> \<not> (0 \<le> (9999::int) \<and> (9999::int) < 9999)"
  by (simp add: set_submitted_codes)

text \<open>
  Claim C5, amended: the codes that the program enumerates are exactly the
  integers of the half-open interval from 0 to 10000, that is 0 to 9999
  inclusive, and each of them is rendered as a string of four characters that
  reads back as the code.
\<close>

theorem submitted_codes_range:
  "(c \<in> set submitted_codes \<longleftrightarrow> 0 \<le> c \<and> c < 10000)
   \<and> (c \<in> set submitted_codes \<longrightarrow>
         length (format_04d c) = 4 \<and> parse_decimal (format_04d c) = Some c)"
  by (simp add: set_submitted_codes format_04d_length format_04d_parse)

theorem submitted_codes_range_witness:
  "9999 \<in> set submitted_codes \<and> format_04d 9999 = ''9999''
   \<and> length (format_04d 9999) = 4 \<and> parse_decimal (format_04d 9999) = Some 9999"
  using submitted_codes_range [of 9999]
  by (simp add: format_04d_digits digit_char_values)

section \<open>Properties of \<^verbatim>\<open>process_code\<close>\<close>

text \<open>The ways through \<^verbatim>\<open>process_code\<close>, by the outcome of the fetch and of the write.\<close>

lemma process_code_cases:
  "process_code dec net code_num output_dir st =
     (case fst (fetch_course_data dec net (format_04d code_num) st) of
        Inl e \<Rightarrow> (Inl e, st)
      | Inr (Some data) \<Rightarrow>
          (case open_w (os_path_join output_dir (format_04d code_num @ ''.json'')) st of
             Inl e \<Rightarrow> (Inl e, st)
           | Inr st2 \<Rightarrow>
               (case utf8_encode (iterencode 2 0 data) of
                  Inl e \<Rightarrow>
                    (Inl e,
                     st\<lparr>files := (files st)(os_path_join output_dir (format_04d code_num @ ''.json'')
                            \<mapsto> Incomplete)\<rparr>)
                | Inr bs \<Rightarrow>
                    (Inr (format_04d code_num, True),
                     st\<lparr>files := (files st)(os_path_join output_dir (format_04d code_num @ ''.json'')
                            \<mapsto> Bytes bs),
                        successful := successful st + 1,
                        stdout := stdout st @
                          [Saved (format_04d code_num)
                             (os_path_join output_dir (format_04d code_num @ ''.json''))]\<rparr>)))
      | Inr None \<Rightarrow>
          (Inr (format_04d code_num, False),
           st\<lparr>failed := failed st + 1,
              stdout := stdout st @
                (if code_num mod 100 = 0
                 then [Progress (format_04d code_num) (successful st) (failed st + 1)]
                 else [])\<rparr>))"
  by (subst process_code_def, subst fetch_course_data_eq)
     (simp add: Let_def open_w_def json_dump_def split: sum.splits option.splits)

text \<open>A code without data gets the status \<^verbatim>\<open>False\<close>, and no file is written for it.\<close>

lemma process_code_absent_files:
  assumes "fst (fetch_course_data dec net (format_04d code_num) st) = Inr None"
  shows "fst (process_code dec net code_num output_dir st) = Inr (format_04d code_num, False)"
    and "files (snd (process_code dec net code_num output_dir st)) = files st"
  using assms by (simp_all add: process_code_cases)

text \<open>
  The tally by the result of the call: the status \<^verbatim>\<open>True\<close> comes with one more
  success, the status \<^verbatim>\<open>False\<close> with one more failure, an exception with neither.
\<close>

lemma process_code_tally:
  "(case fst (process_code dec net code_num output_dir st) of
      Inr (code, present) \<Rightarrow>
        successful (snd (process_code dec net code_num output_dir st))
          = successful st + (if present then 1 else 0)
        \<and> failed (snd (process_code dec net code_num output_dir st))
          = failed st + (if present then 0 else 1)
    | Inl e \<Rightarrow>
        successful (snd (process_code dec net code_num output_dir st)) = successful st
        \<and> failed (snd (process_code dec net code_num output_dir st)) = failed st)"
  by (simp add: process_code_cases split: sum.splits option.splits)

lemma process_code_dirs:
  "dirs (snd (process_code dec net code_num output_dir st)) = dirs st"
  by (simp add: process_code_cases split: sum.splits option.splits)

text \<open>The directory of a file that \<^verbatim>\<open>process_code\<close> names is the output directory.\<close>

lemma digit_char_not_slash:
  assumes "d < 10"
  shows "digit_char d \<noteq> CHR ''/''"
proof
  assume "digit_char d = CHR ''/''"
  then have "(of_char (digit_char d) :: nat) = of_char (CHR ''/'')" by simp
  then show False using assms by (simp add: of_char_digit_char)
qed

lemma str_nat_no_slash: "CHR ''/'' \<notin> set (str_nat n)"
proof (induction n rule: str_nat.induct)
  case (1 n)
  show ?case
  proof (cases "n < 10")
    case True
    then show ?thesis using digit_char_not_slash [of n] by (auto simp: str_nat_1)
  next
    case False
    have "n mod 10 < 10" by simp
    then have "digit_char (n mod 10) \<noteq> CHR ''/''" by (rule digit_char_not_slash)
    then show ?thesis using False 1 by (auto simp: str_nat_step)
  qed
qed

lemma format_04d_no_slash: "CHR ''/'' \<notin> set (format_04d n)"
  using str_nat_no_slash [of "nat \<bar>n\<bar>"] by (auto simp: format_04d_def Let_def)

lemma dropWhile_all: "(\<And>x. x \<in> set xs \<Longrightarrow> P x) \<Longrightarrow> dropWhile P (xs @ ys) = dropWhile P ys"
  by (induction xs) auto

lemma dirname_join:
  assumes "d \<noteq> []" and "last d \<noteq> CHR ''/''" and "CHR ''/'' \<notin> set name"
  shows "dirname (os_path_join d name) = d"
proof -
  have j: "os_path_join d name = d @ ''/'' @ name"
    using assms by (simp add: os_path_join_def)
  have "dropWhile (\<lambda>c. c \<noteq> CHR ''/'') (rev name @ CHR ''/'' # rev d) = CHR ''/'' # rev d"
    using assms(3) by (subst dropWhile_all) auto
  then have "rev (dropWhile (\<lambda>c. c \<noteq> CHR ''/'') (rev (d @ ''/'' @ name))) = d @ ''/''"
    by simp
  then have head: "rev (dropWhile (\<lambda>c. c \<noteq> CHR ''/'') (rev (os_path_join d name))) = d @ ''/''"
    by (simp only: j)
  have "last d \<in> set d"
    using assms(1) by simp
  then have "\<exists>c \<in> set d. c \<noteq> CHR ''/''"
    using assms(2) by (rule bexI [rotated])
  then have n: "list_all (\<lambda>c. c = CHR ''/'') (d @ ''/'') = False"
    by (simp add: list_all_iff)
  obtain ys y where d: "d = ys @ [y]"
    using assms(1) by (cases d rule: rev_cases) simp_all
  then have "y \<noteq> CHR ''/''"
    using assms(2) by simp
  then have "dropWhile (\<lambda>c. c = CHR ''/'') (rev d) = rev d"
    by (simp add: d)
  then have tail: "rev (dropWhile (\<lambda>c. c = CHR ''/'') (rev (d @ ''/''))) = d"
    by simp
  show ?thesis
    by (simp only: dirname_def Let_def head n tail if_False)
qed

text \<open>
  What holds of the claim C4 on the code: with status 200, a value with
  elements, an output directory that exists and a text without surrogate code
  points, \<^verbatim>\<open>process_code\<close> reports success and the file
  \<^verbatim>\<open><output_dir>/<code>.json\<close> holds the UTF-8 bytes of the text that the encoder
  prints for the value with an indentation of two spaces.
\<close>

lemma process_code_writes_file:
  assumes "net (course_request (format_04d code_num)) = Inr r"
    and "status_code r = 200"
    and "dec (encoding r) (content r) = Inr v"
    and "len v = Inr n"
    and "0 < n"
    and "output_dir \<noteq> []"
    and "last output_dir \<noteq> CHR ''/''"
    and "output_dir \<in> dirs st"
    and "output_dir \<notin> dom (files st)"
    and "output_dir @ ''/'' @ format_04d code_num @ ''.json'' \<notin> dirs st"
    and "\<not> list_ex is_surrogate (iterencode 2 0 v)"
  shows "fst (process_code dec net code_num output_dir st) = Inr (format_04d code_num, True)"
    and "files (snd (process_code dec net code_num output_dir st))
          (output_dir @ ''/'' @ format_04d code_num @ ''.json'')
        = Some (Bytes (concat (map utf8_char (iterencode 2 0 v))))"
proof -
  have f: "fst (fetch_course_data dec net (format_04d code_num) st) = Inr (Some v)"
    using assms(1-5) by (simp add: fetch_Some_iff)
  have "CHR ''/'' \<notin> set (format_04d code_num @ ''.json'')"
    using format_04d_no_slash [of code_num] by simp
  then have d: "dirname (os_path_join output_dir (format_04d code_num @ ''.json'')) = output_dir"
    using assms(6,7) by (rule dirname_join [rotated 2])
  have j: "os_path_join output_dir (format_04d code_num @ ''.json'')
             = output_dir @ ''/'' @ format_04d code_num @ ''.json''"
    using assms(6,7) by (simp add: os_path_join_def)
  have "open_w (os_path_join output_dir (format_04d code_num @ ''.json'')) st
      = Inr (st\<lparr>files := (files st)(os_path_join output_dir (format_04d code_num @ ''.json'')
                \<mapsto> Bytes [])\<rparr>)"
    using assms(8-10) by (simp add: open_w_def d) (simp add: j)
  then show "fst (process_code dec net code_num output_dir st) = Inr (format_04d code_num, True)"
    and "files (snd (process_code dec net code_num output_dir st))
          (output_dir @ ''/'' @ format_04d code_num @ ''.json'')
        = Some (Bytes (concat (map utf8_char (iterencode 2 0 v))))"
    using assms(11) by (simp_all add: process_code_cases f utf8_encode_def j)
qed

text \<open>
  The example of the specification: the body \<^verbatim>\<open>{"a":1}\<close> for the code 42 leaves the
  three lines \<^verbatim>\<open>{\<close>, \<^verbatim>\<open>  "a": 1\<close> and \<^verbatim>\<open>}\<close> in \<^verbatim>\<open>json/0042.json\<close>.
\<close>

lemma newline_indent_2:
  "newline_indent 2 0 = [10]" "newline_indent 2 (Suc 0) = [10, 32, 32]"
  by (simp_all add: newline_indent_def replicate_2)

lemma iterencode_object_example:
  "iterencode 2 0 (JObj [(str ''a'', JInt 1)]) = [123, 10, 32, 32, 34, 97, 34, 58, 32, 49, 10, 125]"
proof -
  have "str_nat 1 = [digit_char 1]"
    by (rule str_nat_1) simp
  then have one: "str_int 1 = ''1''"
    by (simp only: str_int_def digit_char_values) simp
  show ?thesis
    by (simp add: newline_indent_2 one str_def encode_basestring_def escape_char_def)
qed

lemma process_code_object_example:
  "process_code sample_decoder (\<lambda>req. Inr (ok_response ''utf-8'' body_object)) 42 ''json''
       (initial_state\<lparr>dirs := {''json''}\<rparr>)
     = (Inr (''0042'', True),
        initial_state\<lparr>dirs := {''json''},
          files := [''json/0042.json'' \<mapsto> Bytes [123, 10, 32, 32, 34, 97, 34, 58, 32, 49, 10, 125]],
          successful := 1,
          stdout := [Saved ''0042'' ''json/0042.json'']\<rparr>)"
proof -
  have code: "format_04d 42 = ''0042''"
    by (simp add: format_04d_digits digit_char_values)
  have dir: "dirname ''json/0042.json'' = ''json''"
    by (simp add: dirname_def)
  have dec: "sample_decoder (Some ''utf-8'') body_object = Inr (JObj [(str ''a'', JInt 1)])"
    by (simp add: sample_decoder_def body_object_def)
  have enc: "utf8_encode [123, 10, 32, 32, 34, 97, 34, 58, 32, 49, 10, 125]
      = Inr [123, 10, 32, 32, 34, 97, 34, 58, 32, 49, 10, 125]"
    by (simp add: utf8_encode_def utf8_char_def is_surrogate_def)
  have f: "fst (fetch_course_data sample_decoder (\<lambda>req. Inr (ok_response ''utf-8'' body_object))
                  ''0042'' st) = Inr (Some (JObj [(str ''a'', JInt 1)]))" for st
    using dec by (simp add: fetch_course_data_fst fetch_try_cases ok_response_def str_def)
  show ?thesis
    by (simp add: process_code_cases code f os_path_join_def open_w_def dir initial_state_def
        iterencode_object_example enc del: iterencode.simps)
qed

text \<open>A code point beyond ASCII goes into the text as it is.\<close>

lemma escape_char_non_ascii: "128 \<le> c \<Longrightarrow> escape_char c = [c]"
  by (simp add: escape_char_def)

text \<open>
  Claim C4. The claim: for every code whose response has status 200 and a
  non-empty JSON body the result is Present and the file \<^verbatim>\<open><output_dir>/<code>.json\<close>
  is written with the pretty-printed value. The code at a response with status
  200 and the body \<^verbatim>\<open>["\ud800"]\<close>, a list of one string of one surrogate code
  point, in a state where the directory \<^verbatim>\<open>json\<close> exists: the value is classified
  Present and the file is opened, but the surrogate has no UTF-8 encoding;
  \<^verbatim>\<open>json.dump\<close> raises \<^verbatim>\<open>UnicodeEncodeError\<close>, the file is left incomplete, no
  counter changes, nothing is printed and no status is returned.
\<close>

theorem process_code_surrogate_body:
  "process_code sample_decoder (\<lambda>req. Inr (ok_response ''utf-8'' body_surrogate)) 42 ''json''
       (initial_state\<lparr>dirs := {''json''}\<rparr>)
     = (Inl UnicodeEncodeError,
        initial_state\<lparr>dirs := {''json''}, files := [''json/0042.json'' \<mapsto> Incomplete]\<rparr>)"
proof -
  have code: "format_04d 42 = ''0042''"
    by (simp add: format_04d_digits digit_char_values)
  have dir: "dirname ''json/0042.json'' = ''json''"
    by (simp add: dirname_def)
  have dec: "sample_decoder (Some ''utf-8'') body_surrogate = Inr (JArr [JStr [55296]])"
    by (simp add: sample_decoder_def body_surrogate_def body_object_def)
  have printed: "iterencode 2 0 (JArr [JStr [55296]]) = [91, 10, 32, 32, 34, 55296, 34, 10, 93]"
    by (simp add: newline_indent_2 str_def encode_basestring_def escape_char_def)
  have enc: "utf8_encode [91, 10, 32, 32, 34, 55296, 34, 10, 93] = Inl UnicodeEncodeError"
    by (simp add: utf8_encode_def is_surrogate_def)
  have f: "fst (fetch_course_data sample_decoder (\<lambda>req. Inr (ok_response ''utf-8'' body_surrogate))
                  ''0042'' st) = Inr (Some (JArr [JStr [55296]]))" for st
    using dec by (simp add: fetch_course_data_fst fetch_try_cases ok_response_def)
  show ?thesis
    by (simp add: process_code_cases code f os_path_join_def open_w_def dir initial_state_def
        printed enc del: iterencode.simps)
qed

text \<open>
  Claim C6. For a code without data a progress line is printed if and only if
  the number of the code is divisible by 100; the line shows the counters after
  the increment. The gate reads the code alone: it holds in every state, however
  many failures were counted before and whichever tasks ran before.
\<close>

theorem process_code_progress_gate:
  assumes "fst (fetch_course_data dec net (format_04d code_num) st) = Inr None"
  shows "stdout (snd (process_code dec net code_num output_dir st)) =
           stdout st @ (if code_num mod 100 = 0
                        then [Progress (format_04d code_num) (successful st) (failed st + 1)]
                        else [])
    \<and> (stdout (snd (process_code dec net code_num output_dir st)) \<noteq> stdout st
          \<longleftrightarrow> code_num mod 100 = 0)"
  using assms by (simp add: process_code_cases)

theorem process_code_progress_gate_witness:
  "stdout (snd (process_code sample_decoder (\<lambda>req. Inl Timeout) 300 ''json''
                  (initial_state\<lparr>failed := 41\<rparr>)))
     = [Progress ''0300'' 0 42]
   \<and> stdout (snd (process_code sample_decoder (\<lambda>req. Inl Timeout) 301 ''json''
                    (initial_state\<lparr>failed := 99\<rparr>)))
     = []"
proof -
  have code: "format_04d 300 = ''0300''"
    by (simp add: format_04d_digits digit_char_values)
  have absent: "fst (fetch_course_data sample_decoder (\<lambda>req. Inl Timeout) c st) = Inr None" for c st
    by (simp add: fetch_course_data_fst fetch_try_def)
  show ?thesis
    using process_code_progress_gate
        [where dec = sample_decoder and net = "\<lambda>req. Inl Timeout" and code_num = 300
           and st = "initial_state\<lparr>failed := 41\<rparr>" and output_dir = "''json''"]
      process_code_progress_gate
        [where dec = sample_decoder and net = "\<lambda>req. Inl Timeout" and code_num = 301
           and st = "initial_state\<lparr>failed := 99\<rparr>" and output_dir = "''json''"]
    by (simp add: absent code initial_state_def)
qed

text \<open>
  Claim C8. The claim: every processed code changes the tally exactly once, one
  of the two counters growing by one. The code at a response with status 200 and
  the body \<^verbatim>\<open>5\<close>, for any code, directory and state: \<^verbatim>\<open>fetch_course_data\<close> raises
  \<^verbatim>\<open>TypeError\<close> before the classification, \<^verbatim>\<open>process_code\<close> ends with it, and
  both counters are what they were.
\<close>

theorem process_code_number_body_tally:
  "process_code sample_decoder (\<lambda>req. Inr (ok_response ''utf-8'' ''5'')) code_num output_dir st
     = (Inl TypeError, st)
   \<and> successful (snd (process_code sample_decoder (\<lambda>req. Inr (ok_response ''utf-8'' ''5''))
                        code_num output_dir st)) = successful st
   \<and> failed (snd (process_code sample_decoder (\<lambda>req. Inr (ok_response ''utf-8'' ''5''))
                    code_num output_dir st)) = failed st"
  by (simp add: process_code_cases fetch_course_data_fst fetch_try_cases ok_response_def
      sample_decoder_def)

section \<open>Properties of \<^verbatim>\<open>main\<close>\<close>

text \<open>A task adds at most one to the sum of the counters, and takes nothing away.\<close>

lemma run_task_tally:
  "successful (run_task dec net output_dir st code_num) + failed (run_task dec net output_dir st code_num)
     = successful st + failed st
       + (case fst (process_code dec net code_num output_dir st) of Inl e \<Rightarrow> 0 | Inr r \<Rightarrow> 1)"
  using process_code_tally [of dec net code_num output_dir st]
  by (cases "process_code dec net code_num output_dir st")
     (auto simp: run_task_def split: sum.splits)

lemma foldl_run_task_bounds:
  "successful st + failed st
     \<le> successful (foldl (run_task dec net output_dir) st sched)
       + failed (foldl (run_task dec net output_dir) st sched)
   \<and> successful (foldl (run_task dec net output_dir) st sched)
       + failed (foldl (run_task dec net output_dir) st sched)
     \<le> successful st + failed st + int (length sched)"
proof (induction sched arbitrary: st)
  case Nil
  show ?case by simp
next
  case (Cons c sched)
  have "successful (run_task dec net output_dir st c) + failed (run_task dec net output_dir st c)
          \<in> {successful st + failed st, successful st + failed st + 1}"
    by (simp add: run_task_tally split: sum.splits)
  then show ?case
    using Cons.IH [of "run_task dec net output_dir st c"] by auto
qed

text \<open>If every task ends in an exception, the counters stay where they are.\<close>

lemma foldl_run_task_raising:
  assumes "\<And>c st. process_code dec net c output_dir st = (Inl e, st)"
  shows "successful (foldl (run_task dec net output_dir) st sched) = successful st
    \<and> failed (foldl (run_task dec net output_dir) st sched) = failed st"
proof (induction sched arbitrary: st)
  case Nil
  show ?case by simp
next
  case (Cons c sched)
  have "run_task dec net output_dir st c = st\<lparr>stdout := stdout st @ [ErrorProcessing e]\<rparr>"
    by (simp add: run_task_def assms)
  then show ?case
    using Cons.IH [of "st\<lparr>stdout := stdout st @ [ErrorProcessing e]\<rparr>"] by simp
qed

text \<open>If every fetch gives \<^verbatim>\<open>None\<close>, every task is counted as a failure.\<close>

lemma foldl_run_task_absent:
  assumes "\<And>c st. fst (fetch_course_data dec net c st) = Inr None"
  shows "successful (foldl (run_task dec net output_dir) st sched) = successful st
    \<and> failed (foldl (run_task dec net output_dir) st sched) = failed st + int (length sched)"
proof (induction sched arbitrary: st)
  case Nil
  show ?case by simp
next
  case (Cons c sched)
  have "successful (run_task dec net output_dir st c) = successful st
      \<and> failed (run_task dec net output_dir st c) = failed st + 1"
    by (simp add: run_task_def process_code_cases assms)
  then show ?case
    using Cons.IH [of "run_task dec net output_dir st c"] by simp
qed

text \<open>
  A run in which every request times out: all 10000 codes are counted as failed
  and the total is 10000.
\<close>

lemma main_all_timeout:
  "(case main sample_decoder (\<lambda>req. Inl Timeout) 4 submitted_codes initial_state of
      Inl e \<Rightarrow> None
    | Inr st \<Rightarrow> Some (successful st, failed st, last (stdout st)))
   = Some (0, 10000, TotalProcessed 10000)"
proof -
  have "fst (fetch_course_data sample_decoder (\<lambda>req. Inl Timeout) c st) = Inr None" for c st
    by (simp add: fetch_course_data_fst fetch_try_def)
  then show ?thesis
    by (simp add: main_def makedirs_def initial_state_def Let_def foldl_run_task_absent
        length_submitted_codes)
qed

text \<open>The total that a run reports is never more than the number of tasks.\<close>

lemma main_total_le:
  assumes "main dec net num_threads sched st0 = Inr st"
  shows "0 \<le> successful st + failed st" and "successful st + failed st \<le> int (length sched)"
proof -
  let ?st3 = "st0\<lparr>dirs := insert ''json'' (dirs st0),
                  stdout := stdout st0 @ [Starting, OutputDirectory ''json'', UsingThreads num_threads, Rule],
                  successful := 0, failed := 0\<rparr>"
  have "successful st + failed st
      = successful (foldl (run_task dec net ''json'') ?st3 sched)
        + failed (foldl (run_task dec net ''json'') ?st3 sched)"
    using assms by (auto simp: main_def makedirs_def Let_def split: if_splits)
  then show "0 \<le> successful st + failed st" and "successful st + failed st \<le> int (length sched)"
    using foldl_run_task_bounds [of ?st3 dec net "''json''" sched] by simp_all
qed

text \<open>
  Claim C1. The claim: at the end of the run the two counters add up to 10000
  whatever the service answers. The code in a run in which the service answers
  every request with status 200 and the body \<^verbatim>\<open>5\<close>: every task ends in the
  \<^verbatim>\<open>TypeError\<close> of \<^verbatim>\<open>len(5)\<close>, \<^verbatim>\<open>main\<close> catches it at \<^verbatim>\<open>future.result()\<close> and
  prints it, neither counter is touched, and the summary reports a total of 0.
\<close>

theorem main_number_bodies_total:
  "(case main sample_decoder (\<lambda>req. Inr (ok_response ''utf-8'' ''5'')) 4 submitted_codes
           initial_state of
      Inl e \<Rightarrow> None
    | Inr st \<Rightarrow> Some (successful st, failed st, successful st + failed st, last (stdout st)))
   = Some (0, 0, 0, TotalProcessed 0)"
proof -
  have "process_code sample_decoder (\<lambda>req. Inr (ok_response ''utf-8'' ''5'')) c ''json'' st
      = (Inl TypeError, st)" for c st
    by (simp add: process_code_cases fetch_course_data_fst fetch_try_cases ok_response_def
        sample_decoder_def)
  then show ?thesis
    by (simp add: main_def makedirs_def initial_state_def Let_def foldl_run_task_raising)
qed

end
